theory Spec2Isabelle
  imports Main "HOL-Library.Sublist"
begin

section \<open>The syntax tree read by the compiler\<close>

text \<open>
  \<^verbatim>\<open>Compiler.py\<close> walks the tree that Python's \<^verbatim>\<open>ast.parse\<close> returns, with a subclass of
  \<^verbatim>\<open>ast.NodeVisitor\<close>. The node classes for which one of the two \<^verbatim>\<open>PyASMCompiler\<close> classes
  has a \<^verbatim>\<open>visit_<Class>\<close> method are constructors of their own, with the fields those methods
  read. Every other class (\<^verbatim>\<open>Module\<close>, \<^verbatim>\<open>Expr\<close>, \<^verbatim>\<open>Call\<close>, \<^verbatim>\<open>arguments\<close>, \<^verbatim>\<open>Pass\<close>, ...) is
  \<open>Other\<close>: its class name and its child nodes in the order of \<^verbatim>\<open>_fields\<close>, a list field
  contributing its nodes in order, which is all that \<^verbatim>\<open>NodeVisitor.generic_visit\<close> looks at.
\<close>

datatype operator = Add | Sub | Mult | Div | Mod | OtherOperator string

datatype cmpop = Gt | Lt | Eq | OtherCmpop string

text \<open>
  The value of an \<^verbatim>\<open>ast.Constant\<close>. The compiler only formats it into an f-string, so a
  value that is neither an integer, a string, a boolean nor \<^verbatim>\<open>None\<close> is carried as the text
  that \<^verbatim>\<open>str\<close> gives for it.
\<close>

datatype const_value = CInt int | CStr string | CBool bool | CNone | CText string

datatype node =
    FunctionDef string node "node list" "node list" "node option" "node list"
      \<comment> \<open>name, args, body, decorator_list, returns, type_params\<close>
  | Assign "node list" node
      \<comment> \<open>targets, value\<close>
  | Return "node option"
      \<comment> \<open>value, \<^verbatim>\<open>None\<close> for a bare return\<close>
  | BinOp node operator node
      \<comment> \<open>left, op, right\<close>
  | If_stmt node "node list" "node list"
      \<comment> \<open>class \<^verbatim>\<open>If\<close>: test, body, orelse\<close>
  | While nat node "node list" "node list"
      \<comment> \<open>\<^verbatim>\<open>id(node)\<close>, then test, body, orelse\<close>
  | Compare node "cmpop list" "node list"
      \<comment> \<open>left, ops, comparators\<close>
  | List_expr "node list"
      \<comment> \<open>class \<^verbatim>\<open>List\<close>: elts\<close>
  | Dict "node option list" "node list"
      \<comment> \<open>keys (\<^verbatim>\<open>None\<close> for a \<^verbatim>\<open>**mapping\<close> entry), values\<close>
  | Attribute node string
      \<comment> \<open>value, attr\<close>
  | Name string
      \<comment> \<open>id\<close>
  | Constant const_value
  | Other string "node list"
      \<comment> \<open>class name, child nodes in field order\<close>

text \<open>\<^verbatim>\<open>ast.parse\<close> returns a \<^verbatim>\<open>Module\<close>, whose only child nodes are its body.\<close>

definition Module :: "node list \<Rightarrow> node" where
  "Module body = Other ''Module'' body"

text \<open>An expression statement: class \<^verbatim>\<open>Expr\<close>, one child.\<close>

definition Expr :: "node \<Rightarrow> node" where
  "Expr e = Other ''Expr'' [e]"

fun class_name :: "node \<Rightarrow> string" where
  "class_name (FunctionDef _ _ _ _ _ _) = ''FunctionDef''"
| "class_name (Assign _ _) = ''Assign''"
| "class_name (Return _) = ''Return''"
| "class_name (BinOp _ _ _) = ''BinOp''"
| "class_name (If_stmt _ _ _) = ''If''"
| "class_name (While _ _ _ _) = ''While''"
| "class_name (Compare _ _ _) = ''Compare''"
| "class_name (List_expr _) = ''List''"
| "class_name (Dict _ _) = ''Dict''"
| "class_name (Attribute _ _) = ''Attribute''"
| "class_name (Name _) = ''Name''"
| "class_name (Constant _) = ''Constant''"
| "class_name (Other k _) = k"

section \<open>Strings\<close>

text \<open>Python's \<^verbatim>\<open>str\<close> of a natural number and of an integer: decimal digits.\<close>

fun str_nat :: "nat \<Rightarrow> string" where
  "str_nat n =
     (if n < 10 then [''0123456789'' ! n]
      else str_nat (n div 10) @ [''0123456789'' ! (n mod 10)])"

declare str_nat.simps [simp del]

definition str_int :: "int \<Rightarrow> string" where
  "str_int i = (if i < 0 then CHR ''-'' # str_nat (nat (- i)) else str_nat (nat i))"

text \<open>What \<^verbatim>\<open>f"{value}"\<close> gives for the value of a constant.\<close>

fun str_constant :: "const_value \<Rightarrow> string" where
  "str_constant (CInt i) = str_int i"
| "str_constant (CStr s) = s"
| "str_constant (CBool b) = (if b then ''True'' else ''False'')"
| "str_constant CNone = ''None''"
| "str_constant (CText s) = s"

text \<open>\<^verbatim>\<open>sep.join(xs)\<close>.\<close>

fun join :: "string \<Rightarrow> string list \<Rightarrow> string" where
  "join sep [] = []"
| "join sep [x] = x"
| "join sep (x # y # ys) = x @ sep @ join sep (y # ys)"

section \<open>The compiler object\<close>

text \<open>
  The first \<^verbatim>\<open>PyASMCompiler\<close> (lines 8 to 148) has three attributes; the second one
  (lines 204 to 359), which replaces it under the same name, has three more.
  \<open>variables\<close> is a dictionary whose values are all \<^verbatim>\<open>None\<close>: its keys.
\<close>

record compiler_first =
  assembly_code :: "string list"
  variables :: "string set"
  current_function :: "string option"

record compiler = compiler_first +
  global_variables :: "string set"
  local_variables :: "string set"
  builtins :: "string set"

text \<open>The two \<^verbatim>\<open>__init__\<close> methods.\<close>

definition init_first :: compiler_first where
  "init_first =
     \<lparr>assembly_code = [''section .text''], variables = {}, current_function = None\<rparr>"

definition init :: compiler where
  "init =
     \<lparr>assembly_code = [''section .text''], variables = {}, current_function = None,
      global_variables = {}, local_variables = {},
      builtins = {''True'', ''False'', ''None''}\<rparr>"

text \<open>
  \<^verbatim>\<open>self.assembly_code.append(line)\<close>, for each line of the list in order: the only way
  either class writes to \<open>assembly_code\<close>.
\<close>

definition append_code ::
  "string list \<Rightarrow> 'a compiler_first_scheme \<Rightarrow> 'a compiler_first_scheme" where
  "append_code ls st = st\<lparr>assembly_code := assembly_code st @ ls\<rparr>"

section \<open>Exceptions\<close>

text \<open>
  A method that raises returns \<open>Inl\<close> of the exception, and the exception leaves
  \<^verbatim>\<open>compile\<close> without a return value. \<open>AttributeError c a\<close>: an object of class \<open>c\<close>
  has no attribute \<open>a\<close>; \<open>UnboundLocalError v\<close>: the local variable \<open>v\<close> is read before
  it is bound; \<open>IndexError\<close>: a list index is out of range.
\<close>

datatype error = AttributeError string string | UnboundLocalError string | IndexError

definition and_then :: "error + 's \<Rightarrow> ('s \<Rightarrow> error + 't) \<Rightarrow> error + 't" where
  "and_then r f = (case r of Inl e \<Rightarrow> Inl e | Inr st \<Rightarrow> f st)"

lemma and_then_cong [fundef_cong]:
  "r = r' \<Longrightarrow> (\<And>st. r' = Inr st \<Longrightarrow> f st = f' st) \<Longrightarrow> and_then r f = and_then r' f'"
  by (simp add: and_then_def split: sum.splits)

lemma and_then_Inr [simp]: "and_then (Inr st) f = f st"
  by (simp add: and_then_def)

lemma and_then_Inl [simp]: "and_then (Inl e) f = Inl e"
  by (simp add: and_then_def)

lemma and_then_eq_Inr:
  "and_then r f = Inr st' \<longleftrightarrow> (\<exists>st. r = Inr st \<and> f st = Inr st')"
  by (cases r) simp_all

text \<open>
  \<^verbatim>\<open>NodeVisitor.generic_visit(x)\<close> starts with \<^verbatim>\<open>ast.iter_fields(x)\<close>, which reads
  \<^verbatim>\<open>x._fields\<close>. Both \<^verbatim>\<open>visit_If\<close> and \<^verbatim>\<open>visit_While\<close> pass it \<^verbatim>\<open>node.body\<close>, a
  Python list, and a list has no such attribute.
\<close>

definition generic_visit_list :: "node list \<Rightarrow> 's \<Rightarrow> error + 's" where
  "generic_visit_list xs st = Inl (AttributeError ''list'' ''_fields'')"

section \<open>The second class, lines 204 to 359\<close>

text \<open>\<^verbatim>\<open>visit_Name\<close>, lines 247 to 262.\<close>

definition visit_Name :: "string \<Rightarrow> compiler \<Rightarrow> compiler" where
  "visit_Name ident st =
     (if ident \<in> builtins st then append_code [''    ; Built-in '' @ ident] st
      else if ident \<in> local_variables st then
        append_code [''    ; Local variable '' @ ident] st
      else if ident \<in> global_variables st then
        append_code [''    ; Global variable '' @ ident] st
      else
        append_code [''    ; Unknown variable '' @ ident @ '' (adding to globals)'']
          (st\<lparr>global_variables := insert ident (global_variables st)\<rparr>))"

text \<open>The instructions \<^verbatim>\<open>visit_BinOp\<close> appends for the operator, lines 281 to 293.\<close>

fun binop_code :: "operator \<Rightarrow> string list" where
  "binop_code Add = [''    add rax, rbx'']"
| "binop_code Sub = [''    sub rax, rbx'']"
| "binop_code Mult = [''    imul rax, rbx'']"
| "binop_code Div = [''    cqo'', ''    idiv rbx'']"
| "binop_code Mod = [''    cqo'', ''    idiv rbx'', ''    mov rax, rdx'']"
| "binop_code (OtherOperator _) = []"

text \<open>
  \<^verbatim>\<open>visit(node)\<close> looks up \<^verbatim>\<open>visit_<Class>\<close> and falls back to \<^verbatim>\<open>generic_visit\<close>, which
  visits the child nodes in field order. One equation per class:
  \<^item> \<open>FunctionDef\<close>: \<^verbatim>\<open>visit_FunctionDef\<close>, lines 213 to 227; its \<^verbatim>\<open>generic_visit(node)\<close>
    visits args, body, decorator_list, returns and type_params;
  \<^item> \<open>Assign\<close>: \<^verbatim>\<open>visit_Assign\<close>, lines 229 to 245, the loop being \<open>visit_Assign_loop\<close>;
  \<^item> \<open>Return\<close>: \<^verbatim>\<open>visit_Return\<close>, lines 264 to 272;
  \<^item> \<open>BinOp\<close>: \<^verbatim>\<open>visit_BinOp\<close>, lines 274 to 293;
  \<^item> \<open>If_stmt\<close>: \<^verbatim>\<open>visit_If\<close>, lines 295 to 305;
  \<^item> \<open>While\<close>: \<^verbatim>\<open>visit_While\<close>, lines 307 to 315;
  \<^item> \<open>List_expr\<close>: \<^verbatim>\<open>visit_List\<close>, lines 317 to 322;
  \<^item> \<open>Dict\<close>: \<^verbatim>\<open>visit_Dict\<close>, lines 324 to 330, the loop over \<^verbatim>\<open>zip(keys, values)\<close>
    being \<open>visit_Dict_loop\<close>; \<^verbatim>\<open>visit(None)\<close> for a missing key falls back to
    \<^verbatim>\<open>generic_visit(None)\<close>, which raises;
  \<^item> \<open>Attribute\<close>: \<^verbatim>\<open>visit_Attribute\<close>, lines 332 to 334;
  \<^item> \<open>Name\<close>: \<^verbatim>\<open>visit_Name\<close>;
  \<^item> \<open>Compare\<close>, \<open>Constant\<close>, \<open>Other\<close>: no method in this class, so \<^verbatim>\<open>generic_visit\<close>.
    The operators of a \<open>Compare\<close> are nodes without children, and visiting them does
    nothing.
\<close>

function visit :: "node \<Rightarrow> compiler \<Rightarrow> error + compiler"
  and visit_each :: "node list \<Rightarrow> compiler \<Rightarrow> error + compiler"
  and visit_Assign_loop :: "node list \<Rightarrow> node \<Rightarrow> compiler \<Rightarrow> error + compiler"
  and visit_Dict_loop :: "node option list \<Rightarrow> node list \<Rightarrow> compiler \<Rightarrow> error + compiler"
where
  "visit (FunctionDef name args body decorator_list returns type_params) st =
     and_then
       (visit args
          ((append_code
             [''global '' @ name, name @ '':'', ''    push rbp'', ''    mov rbp, rsp''] st)
           \<lparr>current_function := Some name, local_variables := {}\<rparr>))
       (\<lambda>st. and_then (visit_each body st)
       (\<lambda>st. and_then (visit_each decorator_list st)
       (\<lambda>st. and_then (case returns of None \<Rightarrow> Inr st | Some r \<Rightarrow> visit r st)
       (\<lambda>st. and_then (visit_each type_params st)
       (\<lambda>st. Inr ((append_code [''    pop rbp'', ''    ret''] st)
                    \<lparr>current_function := None\<rparr>))))))"
| "visit (Assign targets val) st = visit_Assign_loop targets val st"
| "visit (Return val) st =
     (case val of
        Some (BinOp l opr r) \<Rightarrow>
          and_then (visit (BinOp l opr r) st) (\<lambda>st. Inr (append_code [''    ret''] st))
      | Some (Constant c) \<Rightarrow>
          Inr (append_code [''    mov rax, '' @ str_constant c, ''    ret''] st)
      | Some (Name ident) \<Rightarrow>
          Inr (append_code [''    mov rax, '' @ ident, ''    ret''] st)
      | _ \<Rightarrow> Inr (append_code [''    ret''] st))"
| "visit (BinOp left opr right) st =
     and_then (visit left st)
       (\<lambda>st. and_then (visit right (append_code [''    mov rbx, rax''] st))
       (\<lambda>st. Inr (append_code (binop_code opr) st)))"
| "visit (If_stmt test body orelse) st =
     and_then (visit test (append_code [''    ; If condition''] st))
       (\<lambda>st. and_then (generic_visit_list body (append_code [''    jz else_block''] st))
       (\<lambda>st. if orelse \<noteq> [] then
                generic_visit_list orelse
                  (append_code [''else_block:'', ''    ; Else condition''] st)
              else Inr (append_code [''else_block:''] st)))"
| "visit (While node_id test body orelse) st =
     and_then (visit test (append_code [''loop_'' @ str_nat node_id @ '':''] st))
       (\<lambda>st. and_then
                (generic_visit_list body
                   (append_code [''    jz end_loop_'' @ str_nat node_id] st))
       (\<lambda>st. Inr (append_code
                    [''    jmp loop_'' @ str_nat node_id,
                     ''end_loop_'' @ str_nat node_id @ '':''] st)))"
| "visit (Compare left ops comparators) st =
     and_then (visit left st) (\<lambda>st. visit_each comparators st)"
| "visit (List_expr elts) st = visit_each elts (append_code [''    ; Creating list''] st)"
| "visit (Dict keys vals) st =
     visit_Dict_loop keys vals (append_code [''    ; Creating dictionary''] st)"
| "visit (Attribute val attr) st =
     Inr (append_code [''    ; Handling attribute '' @ attr] st)"
| "visit (Name ident) st = Inr (visit_Name ident st)"
| "visit (Constant c) st = Inr st"
| "visit (Other kind children) st = visit_each children st"
| "visit_each [] st = Inr st"
| "visit_each (n # ns) st = and_then (visit n st) (\<lambda>st. visit_each ns st)"
| "visit_Assign_loop [] val st = Inr st"
| "visit_Assign_loop (target # targets) val st =
     (case target of
        Name var_name \<Rightarrow>
          and_then
            (case val of
               Constant c \<Rightarrow>
                 Inr (append_code [''    mov '' @ var_name @ '', '' @ str_constant c]
                        (st\<lparr>local_variables := insert var_name (local_variables st)\<rparr>))
             | Name ident \<Rightarrow>
                 Inr (append_code [''    mov '' @ var_name @ '', '' @ ident]
                        (st\<lparr>local_variables := insert var_name (local_variables st)\<rparr>))
             | BinOp l opr r \<Rightarrow>
                 and_then
                   (visit val (st\<lparr>local_variables := insert var_name (local_variables st)\<rparr>))
                   (\<lambda>st. Inr (append_code [''    mov '' @ var_name @ '', rax''] st))
             | _ \<Rightarrow> Inr (st\<lparr>local_variables := insert var_name (local_variables st)\<rparr>))
            (\<lambda>st. visit_Assign_loop targets val st)
      | _ \<Rightarrow> visit_Assign_loop targets val st)"
| "visit_Dict_loop (k # ks) (v # vs) st =
     and_then
       (case k of None \<Rightarrow> Inl (AttributeError ''NoneType'' ''_fields'') | Some key \<Rightarrow> visit key st)
       (\<lambda>st. and_then (visit v st) (\<lambda>st. visit_Dict_loop ks vs st))"
| "visit_Dict_loop [] vs st = Inr st"
| "visit_Dict_loop (k # ks) [] st = Inr st"
  by pat_completeness auto

termination
  by (relation "measure (\<lambda>x. case x of
        Inl (Inl (n, st)) \<Rightarrow> size n
      | Inl (Inr (ns, st)) \<Rightarrow> size_list size ns
      | Inr (Inl (ts, v, st)) \<Rightarrow> size_list size ts + size v
      | Inr (Inr (ks, vs, st)) \<Rightarrow> size_list (size_option size) ks + size_list size vs)")
    auto


text \<open>
  \<^verbatim>\<open>compile\<close>, lines 336 to 340. The parser is not part of the compiler: \<open>tree\<close> is what
  \<^verbatim>\<open>ast.parse(python_code)\<close> returned. The result is the returned text and the compiler
  object as the call leaves it.
\<close>

definition compile :: "node \<Rightarrow> compiler \<Rightarrow> error + string \<times> compiler" where
  "compile tree st =
     and_then (visit tree st) (\<lambda>st. Inr (join [CHR 0x0A] (assembly_code st), st))"

text \<open>\<^verbatim>\<open>optimize\<close> and its two passes, lines 342 to 359: the body of each pass is \<^verbatim>\<open>pass\<close>.\<close>

definition apply_vcal :: "compiler \<Rightarrow> compiler" where
  "apply_vcal st = st"

definition apply_lpit :: "compiler \<Rightarrow> compiler" where
  "apply_lpit st = st"

definition optimize :: "compiler \<Rightarrow> compiler" where
  "optimize st = apply_lpit (apply_vcal st)"

section \<open>The first class, lines 8 to 148\<close>

text \<open>The instructions of \<^verbatim>\<open>visit_BinOp\<close>, lines 55 to 69.\<close>

fun binop_code_first :: "operator \<Rightarrow> string list" where
  "binop_code_first Add = [''    add rax, rcx'']"
| "binop_code_first Sub = [''    sub rax, rcx'']"
| "binop_code_first Mult = [''    imul rax, rcx'']"
| "binop_code_first Div = [''    cqo'', ''    idiv rcx'']"
| "binop_code_first Mod = [''    cqo'', ''    idiv rcx'', ''    mov rax, rdx'']"
| "binop_code_first (OtherOperator _) = []"

text \<open>
  \<^verbatim>\<open>visit_Compare\<close>, lines 93 to 111: the branch on \<^verbatim>\<open>node.ops[0]\<close>, then seven lines that
  are the same for every node.
\<close>

fun compare_branch :: "cmpop \<Rightarrow> string list" where
  "compare_branch Gt = [''    cmp rax, rcx'', ''    jg comparison_true'']"
| "compare_branch Lt = [''    cmp rax, rcx'', ''    jl comparison_true'']"
| "compare_branch Eq = [''    cmp rax, rcx'', ''    je comparison_true'']"
| "compare_branch (OtherCmpop _) = []"

definition visit_Compare :: "cmpop list \<Rightarrow> compiler_first \<Rightarrow> error + compiler_first" where
  "visit_Compare ops st =
     (case ops of
        [] \<Rightarrow> Inl IndexError
      | opr # _ \<Rightarrow>
          Inr (append_code
                 (compare_branch opr @
                  [''    jmp comparison_false'',
                   ''comparison_true:'',
                   ''    mov rax, 1'',
                   ''    jmp end_comparison'',
                   ''comparison_false:'',
                   ''    mov rax, 0'',
                   ''end_comparison:'']) st))"

text \<open>
  \<^verbatim>\<open>visit_Assign\<close>, lines 29 to 43, reads \<^verbatim>\<open>target.id\<close> after its loop over the targets:
  \<^verbatim>\<open>target\<close> is then the last target, unbound when there was none.
\<close>

definition target_id :: "node list \<Rightarrow> error + string" where
  "target_id targets =
     (if targets = [] then Inl (UnboundLocalError ''target'')
      else case last targets of
             Name ident \<Rightarrow> Inr ident
           | t \<Rightarrow> Inl (AttributeError (class_name t) ''id''))"

definition assign_variables :: "node list \<Rightarrow> string set \<Rightarrow> string set" where
  "assign_variables targets vs =
     foldl (\<lambda>vs t. case t of Name ident \<Rightarrow> insert ident vs | _ \<Rightarrow> vs) vs targets"

text \<open>
  \<^verbatim>\<open>visit\<close> for the first class. \<open>FunctionDef\<close>: lines 14 to 27; \<open>Assign\<close>: lines 29 to 43;
  \<open>Return\<close>: lines 45 to 53; \<open>BinOp\<close>: lines 55 to 69, which visits neither operand;
  \<open>If_stmt\<close>: lines 71 to 81; \<open>While\<close>: lines 83 to 91; \<open>Compare\<close>: \<open>visit_Compare\<close>;
  \<open>List_expr\<close>: lines 113 to 118; \<open>Dict\<close>: lines 120 to 126; \<open>Attribute\<close>: lines 128 to
  131; \<open>Name\<close>: lines 133 to 136; \<open>Constant\<close> and \<open>Other\<close>: \<^verbatim>\<open>generic_visit\<close>.
\<close>

function visit_first :: "node \<Rightarrow> compiler_first \<Rightarrow> error + compiler_first"
  and visit_each_first :: "node list \<Rightarrow> compiler_first \<Rightarrow> error + compiler_first"
  and visit_Dict_loop_first ::
    "node option list \<Rightarrow> node list \<Rightarrow> compiler_first \<Rightarrow> error + compiler_first"
where
  "visit_first (FunctionDef name args body decorator_list returns type_params) st =
     and_then
       (visit_first args
          ((append_code
             [''global '' @ name, name @ '':'', ''    push rbp'', ''    mov rbp, rsp''] st)
           \<lparr>current_function := Some name\<rparr>))
       (\<lambda>st. and_then (visit_each_first body st)
       (\<lambda>st. and_then (visit_each_first decorator_list st)
       (\<lambda>st. and_then (case returns of None \<Rightarrow> Inr st | Some r \<Rightarrow> visit_first r st)
       (\<lambda>st. and_then (visit_each_first type_params st)
       (\<lambda>st. Inr ((append_code [''    pop rbp'', ''    ret''] st)
                    \<lparr>current_function := None\<rparr>))))))"
| "visit_first (Assign targets val) st =
     (case val of
        Constant c \<Rightarrow>
          and_then (target_id targets)
            (\<lambda>t. Inr (append_code [''    mov '' @ t @ '', '' @ str_constant c]
                         (st\<lparr>variables := assign_variables targets (variables st)\<rparr>)))
      | Name ident \<Rightarrow>
          and_then (target_id targets)
            (\<lambda>t. Inr (append_code [''    mov '' @ t @ '', '' @ ident]
                         (st\<lparr>variables := assign_variables targets (variables st)\<rparr>)))
      | BinOp l opr r \<Rightarrow>
          and_then
            (visit_first (BinOp l opr r)
               (st\<lparr>variables := assign_variables targets (variables st)\<rparr>))
            (\<lambda>st. and_then (target_id targets)
            (\<lambda>t. Inr (append_code [''    mov '' @ t @ '', rax''] st)))
      | _ \<Rightarrow> Inr (st\<lparr>variables := assign_variables targets (variables st)\<rparr>))"
| "visit_first (Return val) st =
     (case val of
        Some (BinOp l opr r) \<Rightarrow>
          and_then (visit_first (BinOp l opr r) st)
            (\<lambda>st. Inr (append_code [''    ret''] st))
      | Some (Constant c) \<Rightarrow>
          Inr (append_code [''    mov rax, '' @ str_constant c, ''    ret''] st)
      | Some (Name ident) \<Rightarrow>
          Inr (append_code [''    mov rax, '' @ ident, ''    ret''] st)
      | _ \<Rightarrow> Inr (append_code [''    ret''] st))"
| "visit_first (BinOp left opr right) st = Inr (append_code (binop_code_first opr) st)"
| "visit_first (If_stmt test body orelse) st =
     and_then (visit_first test (append_code [''    ; If condition''] st))
       (\<lambda>st. and_then (generic_visit_list body (append_code [''    jz else_block''] st))
       (\<lambda>st. if orelse \<noteq> [] then
                generic_visit_list orelse
                  (append_code [''else_block:'', ''    ; Else condition''] st)
              else Inr (append_code [''else_block:''] st)))"
| "visit_first (While node_id test body orelse) st =
     and_then (visit_first test (append_code [''loop_'' @ str_nat node_id @ '':''] st))
       (\<lambda>st. and_then
                (generic_visit_list body
                   (append_code [''    jz end_loop_'' @ str_nat node_id] st))
       (\<lambda>st. Inr (append_code
                    [''    jmp loop_'' @ str_nat node_id,
                     ''end_loop_'' @ str_nat node_id @ '':''] st)))"
| "visit_first (Compare left ops comparators) st = visit_Compare ops st"
| "visit_first (List_expr elts) st =
     visit_each_first elts (append_code [''    ; Creating list''] st)"
| "visit_first (Dict keys vals) st =
     visit_Dict_loop_first keys vals (append_code [''    ; Creating dictionary''] st)"
| "visit_first (Attribute val attr) st =
     Inr (append_code [''    ; Handling attribute '' @ attr] st)"
| "visit_first (Name ident) st = Inr (append_code [''    ; Variable '' @ ident] st)"
| "visit_first (Constant c) st = Inr st"
| "visit_first (Other kind children) st = visit_each_first children st"
| "visit_each_first [] st = Inr st"
| "visit_each_first (n # ns) st = and_then (visit_first n st) (\<lambda>st. visit_each_first ns st)"
| "visit_Dict_loop_first (k # ks) (v # vs) st =
     and_then
       (case k of
          None \<Rightarrow> Inl (AttributeError ''NoneType'' ''_fields'')
        | Some key \<Rightarrow> visit_first key st)
       (\<lambda>st. and_then (visit_first v st) (\<lambda>st. visit_Dict_loop_first ks vs st))"
| "visit_Dict_loop_first [] vs st = Inr st"
| "visit_Dict_loop_first (k # ks) [] st = Inr st"
  by pat_completeness auto

termination
  by (relation "measure (\<lambda>x. case x of
        Inl (n, st) \<Rightarrow> size n
      | Inr (Inl (ns, st)) \<Rightarrow> size_list size ns
      | Inr (Inr (ks, vs, st)) \<Rightarrow> size_list (size_option size) ks + size_list size vs)")
    auto

text \<open>\<^verbatim>\<open>compile\<close> of the first class, lines 138 to 142.\<close>

definition compile_first :: "node \<Rightarrow> compiler_first \<Rightarrow> error + string \<times> compiler_first" where
  "compile_first tree st =
     and_then (visit_first tree st) (\<lambda>st. Inr (join [CHR 0x0A] (assembly_code st), st))"

section \<open>Notions used to state the properties\<close>

text \<open>The first line of a text: what precedes its first newline.\<close>

definition first_line :: "string \<Rightarrow> string" where
  "first_line txt = takeWhile (\<lambda>c. c \<noteq> CHR 0x0A) txt"

text \<open>
  The labels of a listing: its lines that end with a colon. \<open>if_program\<close> is what
  \<^verbatim>\<open>ast.parse\<close> returns for the two lines \<^verbatim>\<open>if x:\<close> and \<^verbatim>\<open>    y = 1\<close>, and
  \<open>two_compares\<close> for the two lines \<^verbatim>\<open>a > b\<close> and \<^verbatim>\<open>c < d\<close>, with \<open>two_compares_listing\<close>
  the lines the first class is found to produce for it.
\<close>

definition labels :: "string list \<Rightarrow> string list" where
  "labels ls = filter (\<lambda>l. l \<noteq> [] \<and> last l = CHR '':'') ls"

definition two_compares :: node where
  "two_compares =
     Module [Expr (Compare (Name ''a'') [Gt] [Name ''b'']),
             Expr (Compare (Name ''c'') [Lt] [Name ''d''])]"

definition two_compares_listing :: "string list" where
  "two_compares_listing =
     [''section .text'',
      ''    cmp rax, rcx'', ''    jg comparison_true'', ''    jmp comparison_false'',
      ''comparison_true:'', ''    mov rax, 1'', ''    jmp end_comparison'',
      ''comparison_false:'', ''    mov rax, 0'', ''end_comparison:'',
      ''    cmp rax, rcx'', ''    jl comparison_true'', ''    jmp comparison_false'',
      ''comparison_true:'', ''    mov rax, 1'', ''    jmp end_comparison'',
      ''comparison_false:'', ''    mov rax, 0'', ''end_comparison:'']"

definition if_program :: node where
  "if_program =
     Module [If_stmt (Name ''x'') [Assign [Name ''y''] (Constant (CInt 1))] []]"



text \<open>
  A small program, \<^verbatim>\<open>def f(): return a + 1\<close>, as \<^verbatim>\<open>ast.parse\<close> returns it.
\<close>

definition example_tree :: node where
  "example_tree =
     Module [FunctionDef ''f'' (Other ''arguments'' [])
               [Return (Some (BinOp (Name ''a'') Add (Constant (CInt 1))))] [] None []]"

section \<open>Lowering only appends\<close>

text \<open>
  The equations of \<open>visit\<close> are unfolded one class at a time: as rewrite rules for the
  simplifier they would also unfold the calls in the induction hypotheses.
\<close>

lemmas visit_simps = visit.simps visit_each.simps visit_Assign_loop.simps visit_Dict_loop.simps
declare visit_simps [simp del]

lemma append_code_code [simp]: "assembly_code (append_code ls st) = assembly_code st @ ls"
  by (simp add: append_code_def)

lemma generic_visit_list_Inr [simp]: "generic_visit_list xs st \<noteq> Inr st'"
  by (simp add: generic_visit_list_def)

lemma visit_Name_code:
  "\<exists>l. assembly_code (visit_Name i st) = assembly_code st @ [l]"
  by (simp add: visit_Name_def)

lemma visit_appends:
  "visit n st = Inr st' \<Longrightarrow> \<exists>out. assembly_code st' = assembly_code st @ out"
  "visit_each ns st = Inr st' \<Longrightarrow> \<exists>out. assembly_code st' = assembly_code st @ out"
  "visit_Assign_loop ts v st = Inr st' \<Longrightarrow> \<exists>out. assembly_code st' = assembly_code st @ out"
  "visit_Dict_loop ks vs st = Inr st' \<Longrightarrow> \<exists>out. assembly_code st' = assembly_code st @ out"
proof (induction n st and ns st and ts v st and ks vs st arbitrary: st' and st' and st' and st'
    rule: visit_visit_each_visit_Assign_loop_visit_Dict_loop.induct)
  case (1 name args body decorator_list returns type_params st)
  from "1.prems" obtain s1 s2 s3 s4 s5 where
    v1: "visit args ((append_code
             [''global '' @ name, name @ '':'', ''    push rbp'', ''    mov rbp, rsp''] st)
           \<lparr>current_function := Some name, local_variables := {}\<rparr>) = Inr s1"
    and v2: "visit_each body s1 = Inr s2"
    and v3: "visit_each decorator_list s2 = Inr s3"
    and v4: "(case returns of None \<Rightarrow> Inr s3 | Some r \<Rightarrow> visit r s3) = Inr s4"
    and v5: "visit_each type_params s4 = Inr s5"
    and st': "st' = (append_code [''    pop rbp'', ''    ret''] s5)\<lparr>current_function := None\<rparr>"
    by (auto simp: visit.simps(1) and_then_eq_Inr)
  from "1.IH"(1)[OF v1] obtain o1 where o1: "assembly_code s1 = assembly_code st @ o1"
    by auto
  from "1.IH"(2)[OF v1 v2] obtain o2 where o2: "assembly_code s2 = assembly_code s1 @ o2"
    by auto
  from "1.IH"(3)[OF v1 v2 v3] obtain o3 where o3: "assembly_code s3 = assembly_code s2 @ o3"
    by auto
  have "\<exists>o4. assembly_code s4 = assembly_code s3 @ o4"
  proof (cases returns)
    case None
    with v4 show ?thesis by simp
  next
    case (Some r)
    with v4 "1.IH"(4)[OF v1 v2 v3 Some] show ?thesis by simp
  qed
  then obtain o4 where o4: "assembly_code s4 = assembly_code s3 @ o4" ..
  from "1.IH"(5)[OF v1 v2 v3 v4 v5] obtain o5 where o5: "assembly_code s5 = assembly_code s4 @ o5"
    by auto
  show ?case by (simp add: st' o1 o2 o3 o4 o5)
next
  case (2 targets val st)
  then show ?case by (simp add: visit.simps(2))
next
  case (3 val st)
  then show ?case
    by (fastforce simp: visit.simps(3) and_then_eq_Inr split: option.splits node.splits)
next
  case (4 left opr right st)
  then show ?case 
    by (fastforce simp: visit.simps(4) and_then_eq_Inr)
next
  case (5 test body orelse st)
  then show ?case by (auto simp: visit.simps(5) and_then_eq_Inr)
next
  case (6 node_id test body orelse st)
  then show ?case by (auto simp: visit.simps(6) and_then_eq_Inr)
next
  case (7 left ops comparators st)
  then show ?case by (fastforce simp: visit.simps(7) and_then_eq_Inr)
next
  case (8 elts st)
  then show ?case by (fastforce simp: visit.simps(8) and_then_eq_Inr)
next
  case (9 keys vals st)
  then show ?case by (fastforce simp: visit.simps(9) and_then_eq_Inr)
next
  case (10 val attr st)
  then show ?case by (auto simp: visit.simps(10))
next
  case (11 ident st)
  then show ?case using visit_Name_code[of ident st] by (auto simp: visit.simps(11))
next
  case (12 c st)
  then show ?case by (auto simp: visit.simps(12))
next
  case (13 kind children st)
  then show ?case by (auto simp: visit.simps(13))
next
  case (14 st)
  then show ?case by (auto simp: visit_each.simps)
next
  case (15 n ns st)
  then show ?case by (fastforce simp: visit_each.simps and_then_eq_Inr)
next
  case (16 val st)
  then show ?case by (auto simp: visit_Assign_loop.simps)
next
  case (17 target targets val st)
  then show ?case
    by (fastforce simp: visit_Assign_loop.simps and_then_eq_Inr split: node.splits)
next
  case (18 k ks v vs st)
  then show ?case 
    by (fastforce simp: visit_Dict_loop.simps and_then_eq_Inr split: option.splits)
next
  case (19 vs st)
  then show ?case by (auto simp: visit_Dict_loop.simps)
next
  case (20 k ks st)
  then show ?case by (auto simp: visit_Dict_loop.simps)
qed

section \<open>The first line of a joined listing\<close>

lemma join_Cons: "join sep (x # xs) = (if xs = [] then x else x @ sep @ join sep xs)"
  by (cases xs) simp_all

lemma first_line_join:
  "CHR 0x0A \<notin> set x \<Longrightarrow> first_line (join [CHR 0x0A] (x # xs)) = x"
  by (simp add: join_Cons first_line_def takeWhile_append)

section \<open>Lists of nodes\<close>

text \<open>A list of nodes is lowered without an exception when each of its nodes is.\<close>

lemma visit_each_total:
  "(\<And>c s. c \<in> set children \<Longrightarrow> \<exists>s'. visit c s = Inr s') \<Longrightarrow> \<exists>st'. visit_each children st = Inr st'"
proof (induction children arbitrary: st)
  case Nil
  show ?case by (simp add: visit_each.simps)
next
  case (Cons c cs)
  from Cons.prems[of c st] obtain s where s: "visit c st = Inr s" by auto
  from Cons.IH[of s] Cons.prems obtain st' where "visit_each cs s = Inr st'" by auto
  with s show ?case by (simp add: visit_each.simps)
qed

lemmas visit_first_simps = visit_first.simps visit_each_first.simps visit_Dict_loop_first.simps
declare visit_first_simps [simp del]

section \<open>The local set only gains assigned names\<close>

text \<open>
  Lowering a node leaves in the local set only names that were in it before or that the
  node assigns.
\<close>

lemma visit_Name_locals [simp]: "local_variables (visit_Name i st) = local_variables st"
  by (simp add: visit_Name_def append_code_def)

lemma append_code_locals [simp]: "local_variables (append_code ls st) = local_variables st"
  by (simp add: append_code_def)


section \<open>Properties\<close>

text \<open>
  C1. The first class lowers the two comparisons of \<open>two_compares\<close> to a listing in which
  each of the labels \<^verbatim>\<open>comparison_true\<close>, \<^verbatim>\<open>comparison_false\<close> and \<^verbatim>\<open>end_comparison\<close> is
  defined twice: the labels of the returned listing are not distinct.
\<close>

theorem shared_compare_labels:
  "compile_first two_compares init_first =
     Inr (join [CHR 0x0A] two_compares_listing,
          init_first\<lparr>assembly_code := two_compares_listing\<rparr>) \<and>
   labels two_compares_listing =
     [''comparison_true:'', ''comparison_false:'', ''end_comparison:'',
      ''comparison_true:'', ''comparison_false:'', ''end_comparison:''] \<and>
   \<not> distinct (labels two_compares_listing)"
  by (simp add: two_compares_def two_compares_listing_def Module_def Expr_def
      compile_first_def init_first_def visit_first_simps visit_Compare_def append_code_def
      labels_def del: join.simps)

text \<open>
  C2. \<^verbatim>\<open>visit_Compare\<close> of the first class appends the same three labels for every
  \<^verbatim>\<open>Compare\<close> node and every state of the compiler; the second class has no
  \<^verbatim>\<open>visit_Compare\<close>, so there a comparison only has its operands visited and no
  compare instruction, branch or label is appended.
\<close>

theorem visit_Compare_fixed_labels:
  "visit_first (Compare left (opr # ops) comparators) st =
     Inr (append_code
            (compare_branch opr @
             [''    jmp comparison_false'', ''comparison_true:'', ''    mov rax, 1'',
              ''    jmp end_comparison'', ''comparison_false:'', ''    mov rax, 0'',
              ''end_comparison:'']) st) \<and>
   visit (Compare (Name ''a'') [Gt] [Name ''b'']) init =
     Inr (append_code
            [''    ; Unknown variable a (adding to globals)'',
             ''    ; Unknown variable b (adding to globals)'']
            (init\<lparr>global_variables := {''a'', ''b''}\<rparr>))"
  by (simp add: visit_first.simps(7) visit_Compare_def visit.simps(7,11) visit_each.simps
      visit_Name_def init_def append_code_def insert_commute)

text \<open>
  C3. What \<^verbatim>\<open>visit_If\<close> does: it appends the comment, lowers the test, appends
  \<^verbatim>\<open>jz else_block\<close> and then calls \<^verbatim>\<open>generic_visit\<close> on the list \<^verbatim>\<open>node.body\<close>, which raises
  \<^verbatim>\<open>AttributeError\<close>. So lowering an \<^verbatim>\<open>If\<close> never returns, whatever its parts are, and
  \<^verbatim>\<open>compile\<close> of \<open>if_program\<close> raises.
\<close>

theorem visit_If_raises:
  "compile if_program init = Inl (AttributeError ''list'' ''_fields'') \<and>
   visit (If_stmt test body orelse) st =
     (case visit test (append_code [''    ; If condition''] st) of
        Inl e \<Rightarrow> Inl e
      | Inr s \<Rightarrow> Inl (AttributeError ''list'' ''_fields''))"
  by (simp add: if_program_def compile_def Module_def visit.simps(5,11,13) visit_each.simps
      generic_visit_list_def and_then_def split: sum.splits)



text \<open>
  C5. A name reference never raises, and is classified in this order: a built-in constant
  first, even when the name is also local or global; otherwise local; otherwise global;
  otherwise it is added to the global set, so that it is a member of it afterwards and
  the next reference to it is a global one. The local set and the built-in names are
  left as they were, and the global set only grows.
\<close>

theorem visit_Name_classification:
  "visit (Name ident) st = Inr (visit_Name ident st) \<and>
   (ident \<in> builtins st \<longrightarrow>
      visit_Name ident st = append_code [''    ; Built-in '' @ ident] st) \<and>
   (ident \<notin> builtins st \<and> ident \<in> local_variables st \<longrightarrow>
      visit_Name ident st = append_code [''    ; Local variable '' @ ident] st) \<and>
   (ident \<notin> builtins st \<and> ident \<notin> local_variables st \<and> ident \<in> global_variables st \<longrightarrow>
      visit_Name ident st = append_code [''    ; Global variable '' @ ident] st) \<and>
   (ident \<notin> builtins st \<and> ident \<notin> local_variables st \<and> ident \<notin> global_variables st \<longrightarrow>
      visit_Name ident st =
        append_code [''    ; Unknown variable '' @ ident @ '' (adding to globals)'']
          (st\<lparr>global_variables := insert ident (global_variables st)\<rparr>) \<and>
      ident \<in> global_variables (visit_Name ident st) \<and>
      visit_Name ident (visit_Name ident st) =
        append_code [''    ; Global variable '' @ ident] (visit_Name ident st)) \<and>
   local_variables (visit_Name ident st) = local_variables st \<and>
   builtins (visit_Name ident st) = builtins st \<and>
   global_variables st \<subseteq> global_variables (visit_Name ident st)"
  by (auto simp: visit.simps(11) visit_Name_def append_code_def)

theorem visit_Name_classification_witness:
  "visit (Name ''n'') init =
     Inr (append_code [''    ; Unknown variable n (adding to globals)'']
            (init\<lparr>global_variables := {''n''}\<rparr>)) \<and>
   visit (Name ''n'') (init\<lparr>global_variables := {''n''}\<rparr>) =
     Inr (append_code [''    ; Global variable n''] (init\<lparr>global_variables := {''n''}\<rparr>)) \<and>
   visit (Name ''n'') (init\<lparr>global_variables := {''n''}, local_variables := {''n''}\<rparr>) =
     Inr (append_code [''    ; Local variable n'']
            (init\<lparr>global_variables := {''n''}, local_variables := {''n''}\<rparr>)) \<and>
   visit (Name ''None'') (init\<lparr>local_variables := {''None''}\<rparr>) =
     Inr (append_code [''    ; Built-in None''] (init\<lparr>local_variables := {''None''}\<rparr>))"
  using visit_Name_classification[of "''n''" init]
    visit_Name_classification[of "''n''" "init\<lparr>global_variables := {''n''}\<rparr>"]
    visit_Name_classification[of "''n''"
      "init\<lparr>global_variables := {''n''}, local_variables := {''n''}\<rparr>"]
    visit_Name_classification[of "''None''" "init\<lparr>local_variables := {''None''}\<rparr>"]
  by (simp add: init_def)

text \<open>
  C6, as the code has it. A node of a class without a lowering rule is lowered without an
  exception: \<^verbatim>\<open>visit\<close> falls back to \<^verbatim>\<open>generic_visit\<close>, which appends nothing for the node
  and visits its child nodes in order. Such a node raises only when the visit of one of
  its children does.
\<close>

theorem unsupported_node_generic_visit:
  "visit (Other kind children) st = visit_each children st \<and>
   visit (Other kind []) st = Inr st \<and>
   ((\<forall>c \<in> set children. \<forall>s. \<exists>s'. visit c s = Inr s') \<longrightarrow>
      (\<exists>st'. visit (Other kind children) st = Inr st'))"
  using visit_each_total[of children st]
  by (simp add: visit.simps(13) visit_each.simps)

theorem unsupported_node_generic_visit_witness:
  "(\<exists>st'. visit (Other ''Expr'' [Name ''x'']) init = Inr st') \<and>
   visit (Other ''Pass'' []) init = Inr init"
proof -
  have "\<forall>c \<in> set [Name ''x'']. \<forall>s. \<exists>s'. visit c s = Inr s'"
    by (simp add: visit.simps(11))
  with unsupported_node_generic_visit[of "''Expr''" "[Name ''x'']" init]
    unsupported_node_generic_visit[of "''Pass''" "[]" init]
  show ?thesis by blast
qed

text \<open>
  C6, as the specification states it, fails on the program \<^verbatim>\<open>pass\<close>: its \<^verbatim>\<open>Pass\<close> node has no
  lowering rule, and \<^verbatim>\<open>compile\<close> returns the listing instead of raising.
\<close>

theorem unsupported_node_counterexample:
  "compile (Module [Other ''Pass'' []]) init = Inr (''section .text'', init)"
  by (simp add: compile_def Module_def visit.simps(13) visit_each.simps init_def)





text \<open>
  C9. The optimization pipeline preserves what the program does: \<^verbatim>\<open>optimize\<close> runs its two
  passes, each of them leaves the compiler object as it found it, and so whatever is
  observed of the emitted instruction sequence, by any observer \<open>run\<close>, is the same
  before and after.
\<close>

theorem optimize_transparent:
  "apply_vcal st = st \<and> apply_lpit st = st \<and> optimize st = st \<and>
   run (assembly_code (optimize st)) = run (assembly_code st)"
  by (simp add: optimize_def apply_vcal_def apply_lpit_def)

text \<open>
  C10. For every program that \<^verbatim>\<open>compile\<close> accepts on a new compiler object, the first line
  of the returned text is \<^verbatim>\<open>section .text\<close>; and every lowering step, the visit of a node
  or of a list of nodes, only appends to \<open>assembly_code\<close>: what was there before is a
  prefix of what is there afterwards.
\<close>

theorem compile_first_line_append_only:
  "(compile tree init = Inr (txt, st') \<longrightarrow> first_line txt = ''section .text'') \<and>
   (visit n st = Inr st2 \<longrightarrow> prefix (assembly_code st) (assembly_code st2)) \<and>
   (visit_each ns st = Inr st2 \<longrightarrow> prefix (assembly_code st) (assembly_code st2))"
proof (intro conjI impI)
  assume c: "compile tree init = Inr (txt, st')"
  then have v: "visit tree init = Inr st'" and t: "txt = join [CHR 0x0A] (assembly_code st')"
    by (auto simp: compile_def and_then_eq_Inr)
  from visit_appends(1)[OF v] obtain out where
    "assembly_code st' = ''section .text'' # out"
    by (auto simp: init_def)
  with t show "first_line txt = ''section .text''"
    by (simp add: first_line_join)
next
  assume "visit n st = Inr st2"
  from visit_appends(1)[OF this] show "prefix (assembly_code st) (assembly_code st2)"
    by (auto simp: prefix_def)
next
  assume "visit_each ns st = Inr st2"
  from visit_appends(2)[OF this] show "prefix (assembly_code st) (assembly_code st2)"
    by (auto simp: prefix_def)
qed

theorem compile_first_line_append_only_witness:
  "\<exists>txt st'. compile example_tree init = Inr (txt, st') \<and> first_line txt = ''section .text'' \<and>
     visit example_tree init = Inr st' \<and> prefix (assembly_code init) (assembly_code st') \<and>
     assembly_code st' =
       [''section .text'', ''global f'', ''f:'', ''    push rbp'', ''    mov rbp, rsp'',
        ''    ; Unknown variable a (adding to globals)'', ''    mov rbx, rax'',
        ''    add rax, rbx'', ''    ret'', ''    pop rbp'', ''    ret'']"
proof -
  obtain st' where v: "visit example_tree init = Inr st'"
    and a: "assembly_code st' =
       [''section .text'', ''global f'', ''f:'', ''    push rbp'', ''    mov rbp, rsp'',
        ''    ; Unknown variable a (adding to globals)'', ''    mov rbx, rax'',
        ''    add rax, rbx'', ''    ret'', ''    pop rbp'', ''    ret'']"
    by (simp add: example_tree_def Module_def visit_simps init_def append_code_def visit_Name_def)
  then have c: "compile example_tree init = Inr (join [CHR 0x0A] (assembly_code st'), st')"
    by (simp add: compile_def)
  from compile_first_line_append_only[of example_tree "join [CHR 0x0A] (assembly_code st')" st'
      example_tree init st' "[]"] c v a
  show ?thesis by simp
qed

end
